theory Spec2Isabelle
  imports Main
begin

section \<open>JavaScript values\<close>

text \<open>
  The repository is one CommonJS module, \<^verbatim>\<open>ecosystem.config.js\<close>, whose only
  statement assigns an object literal to \<^verbatim>\<open>module.exports\<close>. The values such a
  literal can hold are modelled by \<open>js_value\<close>. An object keeps its properties as
  the list of key/value pairs in the order the literal writes them; a key is always a
  string, as every non-symbol property key of JavaScript is.
\<close>

datatype js_value =
    JUndefined
  | JNull
  | JBool bool
  | JNumber int
  | JString string
  | JArray "js_value list"
  | JObject "(string \<times> js_value) list"
  | JFunction string
  | JGetter "(string \<times> js_value) list" js_value

text \<open>
  \<open>JFunction\<close> is a function value, named; the members every object inherits
  are such values. \<open>JGetter\<close> stands in a property list for an accessor property
  (\<^verbatim>\<open>get k() { ... }\<close>): reading the property runs the getter, which may assign
  to properties of the object that holds it before it returns its result.
  \<open>JGetter ups r\<close> is the getter that performs the assignments \<open>ups\<close> to
  \<^verbatim>\<open>this\<close>, in order, and returns \<open>r\<close>. The literal of this repository holds
  neither; they are in the model so that what a read can do to an object is in it.
\<close>

text \<open>The \<^verbatim>\<open>typeof\<close> operator.\<close>

fun typeof :: "js_value \<Rightarrow> string" where
  "typeof JUndefined = ''undefined''"
| "typeof JNull = ''object''"
| "typeof (JBool b) = ''boolean''"
| "typeof (JNumber n) = ''number''"
| "typeof (JString s) = ''string''"
| "typeof (JArray xs) = ''object''"
| "typeof (JObject ps) = ''object''"
| "typeof (JFunction f) = ''function''"
| "typeof (JGetter ups r) = typeof r"

subsection \<open>Decimal numerals\<close>

text \<open>
  Property names that are array indices, and the values of cron fields, are unsigned
  decimal numerals.
\<close>

fun position :: "char \<Rightarrow> string \<Rightarrow> nat \<Rightarrow> nat option" where
  "position c [] i = None"
| "position c (d # ds) i = (if c = d then Some i else position c ds (i + 1))"

definition digit_of :: "char \<Rightarrow> nat option" where
  "digit_of c = position c ''0123456789'' 0"

fun digits_value :: "nat \<Rightarrow> string \<Rightarrow> nat option" where
  "digits_value acc [] = Some acc"
| "digits_value acc (c # cs) =
     (case digit_of c of None \<Rightarrow> None | Some d \<Rightarrow> digits_value (10 * acc + d) cs)"

text \<open>
  A property name is an array index when it is the canonical numeral of a number:
  \<^verbatim>\<open>"0"\<close> and \<^verbatim>\<open>"12"\<close> are, \<^verbatim>\<open>"012"\<close> and the empty name are not.
\<close>

fun canonical_index :: "string \<Rightarrow> nat option" where
  "canonical_index [] = None"
| "canonical_index (c # cs) =
     (if c = CHR ''0'' \<and> cs \<noteq> [] then None else digits_value 0 (c # cs))"

fun decimal :: "nat \<Rightarrow> string" where
  "decimal n =
     (if n < 10 then [''0123456789'' ! n]
      else decimal (n div 10) @ [''0123456789'' ! (n mod 10)])"

subsection \<open>Own properties\<close>

text \<open>
  The properties an object literal defines, as written. Where a literal repeats a key
  the later pair wins, so the lookup goes through the reversed list.
\<close>

fun own_props :: "js_value \<Rightarrow> (string \<times> js_value) list" where
  "own_props (JObject ps) = ps"
| "own_props _ = []"

definition own_keys :: "js_value \<Rightarrow> string list" where
  "own_keys v = map fst (own_props v)"

text \<open>
  The element at an index: of an array its item, of a string its character, of an
  object the property named by the index's numeral. An index past the end is absent.
\<close>

fun at_index :: "js_value \<Rightarrow> nat \<Rightarrow> js_value option" where
  "at_index (JArray xs) i = (if i < length xs then Some (xs ! i) else None)"
| "at_index (JString s) i = (if i < length s then Some (JString [s ! i]) else None)"
| "at_index (JObject ps) i = map_of (rev ps) (decimal i)"
| "at_index _ i = None"

text \<open>
  \<open>get_own\<close> is the own-property lookup (what \<^verbatim>\<open>Object.hasOwn\<close> tests and a
  property descriptor returns): \<open>None\<close> is an absent own property. An object has
  the properties its literal defines; an array and a string have \<^verbatim>\<open>length\<close> and
  their indices. It does not consult the prototype chain: the plain read, which does,
  is \<open>object_get\<close> below.
\<close>

fun get_own :: "js_value \<Rightarrow> string \<Rightarrow> js_value option" where
  "get_own (JObject ps) k = map_of (rev ps) k"
| "get_own (JArray xs) k =
     (if k = ''length'' then Some (JNumber (int (length xs)))
      else (case canonical_index k of None \<Rightarrow> None | Some i \<Rightarrow> at_index (JArray xs) i))"
| "get_own (JString s) k =
     (if k = ''length'' then Some (JNumber (int (length s)))
      else (case canonical_index k of None \<Rightarrow> None | Some i \<Rightarrow> at_index (JString s) i))"
| "get_own _ k = None"


text \<open>
  A path names a place in a value by own-property names and indices, as
  \<^verbatim>\<open>apps\<close>, \<^verbatim>\<open>0\<close>, \<^verbatim>\<open>name\<close> does for \<^verbatim>\<open>module.exports.apps[0].name\<close>.
  \<open>get_path\<close> follows own properties only, so it answers what the literal itself
  defines at a path; an own property shadows an inherited one, so where \<open>get_path\<close>
  finds a data property the plain read returns the same value.
\<close>

datatype key = Prop string | Idx nat

fun get_key :: "js_value \<Rightarrow> key \<Rightarrow> js_value option" where
  "get_key v (Prop k) = get_own v k"
| "get_key v (Idx i) = at_index v i"

fun get_path :: "js_value \<Rightarrow> key list \<Rightarrow> js_value option" where
  "get_path v [] = Some v"
| "get_path v (k # ks) = (case get_key v k of None \<Rightarrow> None | Some w \<Rightarrow> get_path w ks)"

subsection \<open>The plain property read of an object\<close>

text \<open>
  An object made by a literal has \<^verbatim>\<open>Object.prototype\<close> as its prototype. The
  read \<^verbatim>\<open>o.k\<close> returns the own property when there is one (running it when it is an
  accessor), otherwise the member inherited from the prototype, otherwise
  \<^verbatim>\<open>undefined\<close>. \<^verbatim>\<open>Object.prototype\<close> has eleven function members and the
  accessor \<^verbatim>\<open>__proto__\<close>, which returns the prototype itself. The read takes the
  property list of the object, so it is defined for objects only.
\<close>

definition object_prototype :: "(string \<times> js_value) list" where
  "object_prototype =
     [(''constructor'', JFunction ''Object''),
      (''__defineGetter__'', JFunction ''__defineGetter__''),
      (''__defineSetter__'', JFunction ''__defineSetter__''),
      (''hasOwnProperty'', JFunction ''hasOwnProperty''),
      (''__lookupGetter__'', JFunction ''__lookupGetter__''),
      (''__lookupSetter__'', JFunction ''__lookupSetter__''),
      (''isPrototypeOf'', JFunction ''isPrototypeOf''),
      (''propertyIsEnumerable'', JFunction ''propertyIsEnumerable''),
      (''toString'', JFunction ''toString''),
      (''valueOf'', JFunction ''valueOf''),
      (''toLocaleString'', JFunction ''toLocaleString'')]"

definition inherited_names :: "string list" where
  "inherited_names = ''__proto__'' # map fst object_prototype"

definition object_get :: "(string \<times> js_value) list \<Rightarrow> string \<Rightarrow> js_value" where
  "object_get ps k =
     (case map_of (rev ps) k of
        Some (JGetter ups r) \<Rightarrow> r
      | Some v \<Rightarrow> v
      | None \<Rightarrow>
          if k = ''__proto__'' then JObject object_prototype
          else (case map_of object_prototype k of None \<Rightarrow> JUndefined | Some f \<Rightarrow> f))"

section \<open>The module ecosystem.config.js\<close>

text \<open>
  \<^verbatim>\<open>
  module.exports = {
    apps: [
      {
        name: "discord-reports",
        script: "bot.py",
        interpreter: "python3",
        cron_restart: "30 4 * * *",
        env: {
          PYTHONUNBUFFERED: "1",
        },
      },
    ],
  };
  \<close>
\<close>

definition module_exports :: js_value where
  "module_exports =
     JObject
       [(''apps'',
         JArray
           [JObject
              [(''name'', JString ''discord-reports''),
               (''script'', JString ''bot.py''),
               (''interpreter'', JString ''python3''),
               (''cron_restart'', JString ''30 4 * * *''),
               (''env'', JObject [(''PYTHONUNBUFFERED'', JString ''1'')])]])]"

text \<open>
  Node runs a CommonJS file as a function of its scope (the process environment, the
  file and directory names) and of the \<^verbatim>\<open>module\<close> object, whose
  \<^verbatim>\<open>exports\<close> field the file assigns. The file mentions nothing of the scope,
  and of \<^verbatim>\<open>module\<close> it writes \<^verbatim>\<open>exports\<close> only.
\<close>

record node_scope =
  process_env :: "(string \<times> string) list"
  scope_filename :: string
  scope_dirname :: string

record module_obj =
  module_id :: string
  loaded :: bool
  exports :: js_value

definition ecosystem_config :: "node_scope \<Rightarrow> module_obj \<Rightarrow> module_obj" where
  "ecosystem_config sc m = m\<lparr>exports := module_exports\<rparr>"

subsection \<open>What using the module does to it\<close>

text \<open>
  The assignment \<^verbatim>\<open>o.k = v\<close>: an own property \<open>k\<close> gets the new value in its
  place, a new property goes last.
\<close>

fun put_first :: "(string \<times> js_value) list \<Rightarrow> string \<Rightarrow> js_value \<Rightarrow> (string \<times> js_value) list" where
  "put_first [] k v = []"
| "put_first ((n, w) # ps) k v =
     (if n = k then (k, v) # ps else (n, w) # put_first ps k v)"

definition assign :: "(string \<times> js_value) list \<Rightarrow> string \<Rightarrow> js_value \<Rightarrow> (string \<times> js_value) list" where
  "assign ps k v =
     (case map_of (rev ps) k of
        None \<Rightarrow> ps @ [(k, v)]
      | Some w \<Rightarrow> rev (put_first (rev ps) k v))"

definition run_getter :: "(string \<times> js_value) list \<Rightarrow> (string \<times> js_value) list \<Rightarrow> (string \<times> js_value) list" where
  "run_getter ps ups = foldl (\<lambda>qs (n, w). assign qs n w) ps ups"

fun array_index :: "key \<Rightarrow> nat option" where
  "array_index (Idx i) = Some i"
| "array_index (Prop k) = canonical_index k"

fun object_key :: "key \<Rightarrow> string" where
  "object_key (Prop k) = k"
| "object_key (Idx i) = decimal i"

text \<open>
  \<open>read_effect v p\<close> is the value \<open>v\<close> after the access chain \<open>p\<close> has been
  evaluated on it. A step into a data property changes nothing by itself and the chain
  goes on inside the property's value; a step into an accessor runs the getter on the
  object that holds it. A step that leaves the value (an absent or inherited member, a
  member of a string or a number, the result of a getter) ends what the chain can do
  to \<open>v\<close>.
\<close>

fun read_effect :: "js_value \<Rightarrow> key list \<Rightarrow> js_value" where
  "read_effect v [] = v"
| "read_effect (JObject ps) (k # ks) =
     (case map_of (rev ps) (object_key k) of
        None \<Rightarrow> JObject ps
      | Some (JGetter ups r) \<Rightarrow> JObject (run_getter ps ups)
      | Some w \<Rightarrow> JObject (assign ps (object_key k) (read_effect w ks)))"
| "read_effect (JArray xs) (k # ks) =
     (case array_index k of
        None \<Rightarrow> JArray xs
      | Some i \<Rightarrow>
          if i < length xs then JArray (xs[i := read_effect (xs ! i) ks]) else JArray xs)"
| "read_effect v (k # ks) = v"

text \<open>
  A value is data only when no function and no accessor stands anywhere in it: then
  it defines no operation that a user of the value could run.
\<close>

fun data_only :: "js_value \<Rightarrow> bool"
  and data_only_items :: "js_value list \<Rightarrow> bool"
  and data_only_props :: "(string \<times> js_value) list \<Rightarrow> bool" where
  "data_only (JFunction f) = False"
| "data_only (JGetter ups r) = False"
| "data_only (JArray xs) = data_only_items xs"
| "data_only (JObject ps) = data_only_props ps"
| "data_only JUndefined = True"
| "data_only JNull = True"
| "data_only (JBool b) = True"
| "data_only (JNumber n) = True"
| "data_only (JString s) = True"
| "data_only_items [] = True"
| "data_only_items (x # xs) = (data_only x \<and> data_only_items xs)"
| "data_only_props [] = True"
| "data_only_props ((k, v) # ps) = (data_only v \<and> data_only_props ps)"

text \<open>
  Modelled from the spec: the supervisor that uses the module is not part of the
  repository. The spec's section 3 has it read the configuration at startup and on
  reload: it evaluates the file, the one operation the repository defines, and it reads
  the exported record at paths of its choice.
\<close>

datatype action = Evaluate node_scope | Read "key list"

fun perform :: "action \<Rightarrow> module_obj \<Rightarrow> module_obj" where
  "perform (Evaluate sc) m = ecosystem_config sc m"
| "perform (Read p) m = m\<lparr>exports := read_effect (exports m) p\<rparr>"

fun perform_all :: "action list \<Rightarrow> module_obj \<Rightarrow> module_obj" where
  "perform_all [] m = m"
| "perform_all (a # as) m = perform_all as (perform a m)"

text \<open>The path of the one app record, \<^verbatim>\<open>module.exports.apps[0]\<close>.\<close>

definition app_path :: "key list" where
  "app_path = [Prop ''apps'', Idx 0]"

section \<open>The schema of a process launch specification\<close>

text \<open>
  Modelled from the spec: the schema check of a launch specification. The supervisor
  that loads the file is not part of the repository, so the check follows the spec's
  sections 6 and 8: \<open>name\<close> and \<open>script\<close> required strings, \<open>interpreter\<close> an
  optional string, \<open>cron_restart\<close> an optional five-field cron expression, \<open>env\<close>
  an optional mapping of strings to strings.
\<close>

definition is_space :: "char \<Rightarrow> bool" where
  "is_space c = (c = CHR '' '' \<or> c = CHR 0x09)"

text \<open>
  Modelled from the spec: the whitespace-separated fields of a cron expression, the
  maximal runs of characters that are not blanks. \<open>cur\<close> holds the field being
  read, reversed.
\<close>

fun fields_from :: "string \<Rightarrow> string \<Rightarrow> string list" where
  "fields_from cur [] = (if cur = [] then [] else [rev cur])"
| "fields_from cur (c # cs) =
     (if is_space c
      then (if cur = [] then fields_from [] cs else rev cur # fields_from [] cs)
      else fields_from (c # cur) cs)"

definition cron_fields :: "string \<Rightarrow> string list" where
  "cron_fields s = fields_from [] s"

text \<open>Modelled from the spec: a cron value is an unsigned decimal numeral.\<close>

definition cron_value :: "string \<Rightarrow> nat option" where
  "cron_value f = (if f = [] then None else digits_value 0 f)"

text \<open>
  Modelled from the spec: a field is valid for a range when it is the wildcard or a
  value of the range; an expression is valid when it has exactly five fields, valid for
  minute (0 to 59), hour (0 to 23), day of month (1 to 31), month (1 to 12) and day of
  week (0 to 7, Sunday being both 0 and 7).
\<close>

definition field_in :: "nat \<Rightarrow> nat \<Rightarrow> string \<Rightarrow> bool" where
  "field_in lo hi f =
     (f = ''*'' \<or> (case cron_value f of None \<Rightarrow> False | Some n \<Rightarrow> lo \<le> n \<and> n \<le> hi))"

definition valid_cron5 :: "string \<Rightarrow> bool" where
  "valid_cron5 s =
     (case cron_fields s of
        [mi, ho, dm, mo, dw] \<Rightarrow>
          field_in 0 59 mi \<and> field_in 0 23 ho \<and> field_in 1 31 dm
          \<and> field_in 1 12 mo \<and> field_in 0 7 dw
      | _ \<Rightarrow> False)"

fun is_object :: "js_value \<Rightarrow> bool" where
  "is_object (JObject ps) = True"
| "is_object _ = False"

definition string_values :: "js_value \<Rightarrow> bool" where
  "string_values v = list_all (\<lambda>(k, w). typeof w = ''string'') (own_props v)"

fun cron_string :: "js_value \<Rightarrow> bool" where
  "cron_string (JString s) = valid_cron5 s"
| "cron_string _ = False"

definition required_string :: "js_value \<Rightarrow> string \<Rightarrow> bool" where
  "required_string v k =
     (case get_own v k of None \<Rightarrow> False | Some w \<Rightarrow> typeof w = ''string'')"

definition optional_field :: "string \<Rightarrow> js_value \<Rightarrow> bool" where
  "optional_field k w =
     (if k = ''interpreter'' then typeof w = ''string''
      else if k = ''cron_restart'' then cron_string w
      else if k = ''env'' then is_object w \<and> string_values w
      else False)"

definition schema_ok :: "js_value \<Rightarrow> bool" where
  "schema_ok v =
     (is_object v \<and> required_string v ''name'' \<and> required_string v ''script''
      \<and> list_all (\<lambda>(k, w). k = ''name'' \<or> k = ''script'' \<or> optional_field k w)
           (own_props v))"

section \<open>Basic facts\<close>

lemma app_record:
  "get_path module_exports app_path =
     Some (JObject
       [(''name'', JString ''discord-reports''),
        (''script'', JString ''bot.py''),
        (''interpreter'', JString ''python3''),
        (''cron_restart'', JString ''30 4 * * *''),
        (''env'', JObject [(''PYTHONUNBUFFERED'', JString ''1'')])])"
  by (simp add: module_exports_def app_path_def)

lemma get_path_append:
  "get_path v (ps @ qs) = (case get_path v ps of None \<Rightarrow> None | Some w \<Rightarrow> get_path w qs)"
  by (induction ps arbitrary: v) (simp_all split: option.splits)

lemma get_own_object: "get_own (JObject ps) = map_of (rev ps)"
  by (rule ext) simp

lemma put_first_same: "map_of qs k = Some w \<Longrightarrow> put_first qs k w = qs"
  by (induction qs) (auto split: if_splits)

lemma assign_same: "map_of (rev ps) k = Some w \<Longrightarrow> assign ps k w = ps"
  by (simp add: assign_def put_first_same)

lemma data_only_member:
  "data_only_props ps \<Longrightarrow> (k, w) \<in> set ps \<Longrightarrow> data_only w"
  by (induction ps) auto

lemma data_only_lookup:
  assumes "data_only_props ps" and "map_of (rev ps) k = Some w"
  shows "data_only w"
proof -
  from assms(2) have "(k, w) \<in> set (rev ps)"
    by (rule map_of_SomeD)
  then have "(k, w) \<in> set ps"
    by simp
  with assms(1) show ?thesis
    by (rule data_only_member)
qed

lemma data_only_nth: "data_only_items xs \<Longrightarrow> i < length xs \<Longrightarrow> data_only (xs ! i)"
proof (induction xs arbitrary: i)
  case Nil
  then show ?case by simp
next
  case (Cons x xs)
  then show ?case by (cases i) simp_all
qed

lemma read_effect_data_only: "data_only v \<Longrightarrow> read_effect v p = v"
proof (induction p arbitrary: v)
  case Nil
  show ?case by simp
next
  case (Cons k ks)
  show ?case
  proof (cases v)
    case (JObject ps)
    show ?thesis
    proof (cases "map_of (rev ps) (object_key k)")
      case None
      with JObject show ?thesis by simp
    next
      case (Some w)
      from Cons.prems JObject have "data_only_props ps"
        by simp
      then have w: "data_only w"
        using Some by (rule data_only_lookup)
      then have "read_effect w ks = w"
        by (rule Cons.IH)
      with w JObject Some show ?thesis
        by (cases w) (simp_all add: assign_same)
    qed
  next
    case (JArray xs)
    show ?thesis
    proof (cases "array_index k")
      case None
      with JArray show ?thesis by simp
    next
      case (Some i)
      show ?thesis
      proof (cases "i < length xs")
        case True
        from Cons.prems JArray have "data_only_items xs"
          by simp
        then have "data_only (xs ! i)"
          using True by (rule data_only_nth)
        then have "read_effect (xs ! i) ks = xs ! i"
          by (rule Cons.IH)
        with JArray Some True show ?thesis by simp
      next
        case False
        with JArray Some show ?thesis by simp
      qed
    qed
  qed simp_all
qed

lemma module_exports_data_only: "data_only module_exports"
  by (simp add: module_exports_def)

lemma perform_fixed: "exports m = module_exports \<Longrightarrow> perform a m = m"
  by (cases a) (simp_all add: ecosystem_config_def read_effect_data_only module_exports_data_only)

lemma perform_all_fixed: "exports m = module_exports \<Longrightarrow> perform_all as m = m"
  by (induction as) (simp_all add: perform_fixed)

section \<open>The configuration record\<close>

text \<open>
  C1: evaluating the literal yields a record whose name is "discord-reports", whose
  script is "bot.py", whose interpreter is "python3", whose cron_restart is
  "30 4 * * *" and whose env is the mapping of PYTHONUNBUFFERED to "1" and of nothing
  else. Every one of the five reads succeeds.
\<close>

theorem config_literal_fields:
  "get_path (exports (ecosystem_config sc m)) (app_path @ [Prop ''name''])
     = Some (JString ''discord-reports'')
   \<and> get_path (exports (ecosystem_config sc m)) (app_path @ [Prop ''script''])
     = Some (JString ''bot.py'')
   \<and> get_path (exports (ecosystem_config sc m)) (app_path @ [Prop ''interpreter''])
     = Some (JString ''python3'')
   \<and> get_path (exports (ecosystem_config sc m)) (app_path @ [Prop ''cron_restart''])
     = Some (JString ''30 4 * * *'')
   \<and> get_path (exports (ecosystem_config sc m)) (app_path @ [Prop ''env''])
     = Some (JObject [(''PYTHONUNBUFFERED'', JString ''1'')])
   \<and> map_option get_own
       (get_path (exports (ecosystem_config sc m)) (app_path @ [Prop ''env'']))
     = Some [''PYTHONUNBUFFERED'' \<mapsto> JString ''1'']"
  by (simp add: ecosystem_config_def get_path_append app_record fun_eq_iff)

text \<open>
  C2: in the configuration record, \<open>name\<close> and \<open>script\<close> are both present, both
  strings, and neither is the empty string.
\<close>

theorem name_and_script_nonempty:
  "(case get_path module_exports (app_path @ [Prop ''name'']) of
      Some (JString s) \<Rightarrow> s \<noteq> [] | _ \<Rightarrow> False)
   \<and> (case get_path module_exports (app_path @ [Prop ''script'']) of
      Some (JString s) \<Rightarrow> s \<noteq> [] | _ \<Rightarrow> False)"
  by (simp add: get_path_append app_record)

text \<open>
  C3: the \<open>cron_restart\<close> field is a string that splits at blanks into exactly five
  fields, "30", "4" and three wildcards; the first is the minute 30, within 0 to 59,
  the second the hour 4, within 0 to 23, and the whole is a valid five-field cron
  expression.
\<close>

theorem cron_restart_valid:
  "(case get_path module_exports (app_path @ [Prop ''cron_restart'']) of
      Some (JString c) \<Rightarrow>
        cron_fields c = [''30'', ''4'', ''*'', ''*'', ''*'']
        \<and> length (cron_fields c) = 5
        \<and> map_option (\<lambda>n. 0 \<le> n \<and> n \<le> 59) (cron_value (cron_fields c ! 0)) = Some True
        \<and> cron_value (cron_fields c ! 0) = Some 30
        \<and> map_option (\<lambda>n. 0 \<le> n \<and> n \<le> 23) (cron_value (cron_fields c ! 1)) = Some True
        \<and> cron_value (cron_fields c ! 1) = Some 4
        \<and> field_in 1 31 (cron_fields c ! 2)
        \<and> field_in 1 12 (cron_fields c ! 3)
        \<and> field_in 0 7 (cron_fields c ! 4)
        \<and> valid_cron5 c
    | _ \<Rightarrow> False)"
  by (simp add: get_path_append app_record cron_fields_def is_space_def cron_value_def
      digit_of_def field_in_def valid_cron5_def)

text \<open>
  C4: the \<open>env\<close> field is an object whose every value is a string (its keys are
  strings, as all property names are); the value bound to PYTHONUNBUFFERED is the
  string "1", of type string, and not the number 1.
\<close>

theorem env_string_to_string:
  "map_option is_object (get_path module_exports (app_path @ [Prop ''env''])) = Some True
   \<and> map_option string_values (get_path module_exports (app_path @ [Prop ''env'']))
     = Some True
   \<and> get_path module_exports (app_path @ [Prop ''env'', Prop ''PYTHONUNBUFFERED''])
     = Some (JString ''1'')
   \<and> map_option typeof
       (get_path module_exports (app_path @ [Prop ''env'', Prop ''PYTHONUNBUFFERED'']))
     = Some ''string''
   \<and> get_path module_exports (app_path @ [Prop ''env'', Prop ''PYTHONUNBUFFERED''])
     \<noteq> Some (JNumber 1)"
  by (simp add: get_path_append app_record string_values_def)

text \<open>
  C5: the configuration record satisfies the schema of the external interface: the
  required fields \<open>name\<close> and \<open>script\<close> are present and strings, and every other
  field present is \<open>interpreter\<close> with a string, \<open>cron_restart\<close> with a valid cron
  expression, or \<open>env\<close> with a mapping of strings to strings.
\<close>

theorem app_satisfies_schema:
  "map_option schema_ok (get_path module_exports app_path) = Some True"
  by (simp add: app_record schema_ok_def required_string_def optional_field_def
      string_values_def valid_cron5_def cron_fields_def is_space_def field_in_def
      cron_value_def digit_of_def)

text \<open>
  C6: the environment mapping of the configuration record holds exactly one binding,
  the one of PYTHONUNBUFFERED.
\<close>

theorem env_single_binding:
  "map_option own_keys (get_path module_exports (app_path @ [Prop ''env'']))
     = Some [''PYTHONUNBUFFERED'']
   \<and> map_option (\<lambda>e. length (own_props e))
       (get_path module_exports (app_path @ [Prop ''env''])) = Some 1
   \<and> map_option (\<lambda>e. dom (get_own e))
       (get_path module_exports (app_path @ [Prop ''env''])) = Some {''PYTHONUNBUFFERED''}"
  by (simp add: get_path_append app_record own_keys_def get_own_object)

text \<open>
  C7: the configuration is immutable data. The record the module exports holds no
  function and no accessor, so the repository defines no operation on it; and however
  often, and in whatever order, the file is evaluated again and the record is read,
  the module object stays what the first evaluation made it, every field of the record
  as the literal wrote it.
\<close>

theorem config_immutable:
  "data_only (exports (ecosystem_config sc m))
   \<and> perform_all acts (ecosystem_config sc m) = ecosystem_config sc m
   \<and> get_path (exports (perform_all acts (ecosystem_config sc m))) p
     = get_path module_exports p"
  by (simp add: perform_all_fixed module_exports_data_only ecosystem_config_def)


text \<open>
  C9, as the claim states it, fails: \<open>constructor\<close> is none of the five keys, yet
  reading it from the app record returns the function every object inherits, not
  \<^verbatim>\<open>undefined\<close>.
\<close>

theorem app_constructor_inherited:
  "''constructor'' \<notin> set [''name'', ''script'', ''interpreter'', ''cron_restart'', ''env'']
   \<and> (case get_path module_exports app_path of
        Some (JObject ps) \<Rightarrow>
          object_get ps ''constructor'' = JFunction ''Object''
          \<and> object_get ps ''constructor'' \<noteq> JUndefined
      | _ \<Rightarrow> False)"
  by (simp add: app_record object_get_def object_prototype_def)

text \<open>
  C9, amended: the app record defines exactly the five own keys \<open>name\<close>,
  \<open>script\<close>, \<open>interpreter\<close>, \<open>cron_restart\<close> and \<open>env\<close>, each once, and no
  other own property; reading a field returns \<^verbatim>\<open>undefined\<close> exactly when it is none
  of the five and none of the names inherited from \<^verbatim>\<open>Object.prototype\<close>; so
  \<open>watch\<close>, \<open>instances\<close> and \<open>args\<close> read as \<^verbatim>\<open>undefined\<close>.
\<close>

theorem app_five_own_keys:
  "map_option own_keys (get_path module_exports app_path)
     = Some [''name'', ''script'', ''interpreter'', ''cron_restart'', ''env'']
   \<and> (get_path module_exports (app_path @ [Prop k]) = None)
     = (k \<notin> set [''name'', ''script'', ''interpreter'', ''cron_restart'', ''env''])
   \<and> (case get_path module_exports app_path of
        Some (JObject ps) \<Rightarrow>
          (object_get ps k = JUndefined)
            = (k \<notin> set [''name'', ''script'', ''interpreter'', ''cron_restart'', ''env'']
               \<and> k \<notin> set inherited_names)
          \<and> object_get ps ''watch'' = JUndefined
          \<and> object_get ps ''instances'' = JUndefined
          \<and> object_get ps ''args'' = JUndefined
      | _ \<Rightarrow> False)"
  by (simp add: get_path_append app_record own_keys_def object_get_def
      object_prototype_def inherited_names_def)

text \<open>
  C10: evaluating the module is deterministic: whatever the scope and whatever the
  module object held before, the record exported is the same, and evaluating again
  changes nothing.
\<close>

theorem evaluation_deterministic:
  "exports (ecosystem_config sc1 m1) = exports (ecosystem_config sc2 m2)
   \<and> ecosystem_config sc2 (ecosystem_config sc1 m) = ecosystem_config sc1 m"
  by (simp add: ecosystem_config_def)

end
